theory Spec2Isabelle
  imports Main "HOL-Library.Sublist"
begin

section \<open>Strings of the target language\<close>

text \<open>
  The generator of \<^verbatim>\<open>scripts/dev/generate_config_types.py\<close> assembles Python source
  text. Strings are \<^typ>\<open>string\<close>; the few characters that cannot be written inside a
  literal are named here.
\<close>

definition dquote :: char where
  "dquote = CHR 0x22"

definition squote :: char where
  "squote = CHR 0x27"

definition backslash :: char where
  "backslash = CHR 0x5C"

definition newline :: char where
  "newline = CHR 0x0A"

text \<open>\<^verbatim>\<open>s.split(sep)\<close> for a one-character separator: never empty, empty parts kept.\<close>

fun str_split :: "char \<Rightarrow> string \<Rightarrow> string list" where
  "str_split sep [] = [[]]"
| "str_split sep (c # cs) =
     (if c = sep then [] # str_split sep cs
      else (case str_split sep cs of
              [] \<Rightarrow> [[c]]
            | p # ps \<Rightarrow> (c # p) # ps))"

text \<open>\<^verbatim>\<open>sep.join(xs)\<close>.\<close>

fun str_join :: "string \<Rightarrow> string list \<Rightarrow> string" where
  "str_join sep [] = []"
| "str_join sep [x] = x"
| "str_join sep (x # y # ys) = x @ sep @ str_join sep (y # ys)"

text \<open>\<^verbatim>\<open>s.endswith(suffix)\<close>.\<close>

definition endswith :: "string \<Rightarrow> string \<Rightarrow> bool" where
  "endswith s suf \<longleftrightarrow>
     length suf \<le> length s \<and> drop (length s - length suf) s = suf"

text \<open>
  \<^verbatim>\<open>str.capitalize()\<close> on ASCII text: the first character in upper case, the others in
  lower case; every other character is kept.
\<close>

definition upper_char :: "char \<Rightarrow> char" where
  "upper_char c =
     (case map_of (zip ''abcdefghijklmnopqrstuvwxyz'' ''ABCDEFGHIJKLMNOPQRSTUVWXYZ'') c of
        None \<Rightarrow> c
      | Some u \<Rightarrow> u)"

definition lower_char :: "char \<Rightarrow> char" where
  "lower_char c =
     (case map_of (zip ''ABCDEFGHIJKLMNOPQRSTUVWXYZ'' ''abcdefghijklmnopqrstuvwxyz'') c of
        None \<Rightarrow> c
      | Some l \<Rightarrow> l)"

fun capitalize :: "string \<Rightarrow> string" where
  "capitalize [] = []"
| "capitalize (c # cs) = upper_char c # map lower_char cs"

text \<open>
  \<^verbatim>\<open>repr(s)\<close> of a string: single quotes, unless the text holds a single quote and no
  double quote; the quote and the backslash are escaped, control characters are written
  as escapes, everything else (printable text) is kept.
\<close>

definition hex_digit :: "nat \<Rightarrow> char" where
  "hex_digit n = ''0123456789abcdef'' ! (n mod 16)"

definition repr_char :: "char \<Rightarrow> char \<Rightarrow> string" where
  "repr_char q c =
     (let n = (of_char c :: nat) in
      if c = q \<or> c = backslash then [backslash, c]
      else if n = 9 then [backslash, CHR ''t'']
      else if n = 10 then [backslash, CHR ''n'']
      else if n = 13 then [backslash, CHR ''r'']
      else if n < 32 \<or> n = 127 then [backslash, CHR ''x'', hex_digit (n div 16), hex_digit n]
      else [c])"

definition py_repr :: "string \<Rightarrow> string" where
  "py_repr s =
     (let q = (if squote \<in> set s \<and> dquote \<notin> set s then dquote else squote)
      in q # concat (map (repr_char q) s) @ [q])"

section \<open>Type descriptors and options\<close>

text \<open>
  Modelled from the spec: the descriptor classes of \<^verbatim>\<open>qutebrowser.config.configtypes\<close>
  and the \<^verbatim>\<open>Option\<close> class of \<^verbatim>\<open>configdata\<close> are not among the sources; only
  their uses are. A descriptor is modelled by what the generator reads of it: the class
  that the \<^verbatim>\<open>isinstance\<close> tests see (an instance of a subclass counts as its tested
  base class), the flag \<^verbatim>\<open>none_ok\<close>, the result of \<^verbatim>\<open>get_valid_values()\<close>
  (\<open>None\<close>, or an object whose \<^verbatim>\<open>values\<close> are listed; an object is true in a
  condition), and for the composite classes the descriptors they hold
  (\<^verbatim>\<open>valtype\<close>; \<^verbatim>\<open>keytype\<close> and \<^verbatim>\<open>valtype\<close>; \<^verbatim>\<open>valtype\<close> and
  \<^verbatim>\<open>listtype\<close>), for \<^verbatim>\<open>MappingType\<close> the keys of \<^verbatim>\<open>MAPPING\<close>.
  The class \<^verbatim>\<open>Int\<close> is written \<open>IntT\<close>. The union \<^verbatim>\<open>ConfigType\<close> is closed,
  so the final \<^verbatim>\<open>assert_never\<close> of the resolver has no instance.
\<close>

datatype cls =
    List ConfigType
  | Dict ConfigType ConfigType
  | Bool
  | MappingType "string list"
  | String | FontBase | QtColor | QssColor | Command | Key | SessionName | Url | File
  | UrlPattern | FormatString | Directory | Encoding | FuzzyUrl | SearchEngineUrl | Proxy
  | IntT
  | Float
  | ListOrValue ConfigType ConfigType
  | Perc
  | PercOrInt
  | Regex
and ConfigType =
    ConfigType (cls: cls) (none_ok: bool) (get_valid_values: "string list option")

text \<open>
  The default of an option is any Python value; the generator only asks whether it is
  \<^verbatim>\<open>None\<close>, which is \<open>None\<close> of the option type here. The fields
  \<^verbatim>\<open>typ\<close>, \<^verbatim>\<open>default\<close> and \<^verbatim>\<open>description\<close> carry the prefix \<open>opt_\<close>.
\<close>

datatype py_value = PyBool bool | PyInt int | PyStr string | PyList "py_value list"

record Option_data =
  opt_typ :: ConfigType
  opt_default :: "py_value option"
  opt_description :: string

section \<open>The Key Tree Builder\<close>

text \<open>
  \<^verbatim>\<open>NestedConfig = dict[str, Union[Option, "NestedConfig"]]\<close>. A Python dict keeps its
  keys in insertion order, so it is an association list with distinct keys.
\<close>

datatype nested_value = OptionV Option_data | DictV "(string \<times> nested_value) list"

type_synonym NestedConfig = "(string \<times> nested_value) list"

datatype error = AttributeError | TypeError

text \<open>\<^verbatim>\<open>d[k] = v\<close>: an existing key keeps its place, a new key goes last.\<close>

fun dict_set :: "('k \<times> 'v) list \<Rightarrow> 'k \<Rightarrow> 'v \<Rightarrow> ('k \<times> 'v) list" where
  "dict_set [] k v = [(k, v)]"
| "dict_set ((k', v') # d) k v =
     (if k' = k then (k, v) # d else (k', v') # dict_set d k v)"

text \<open>
  One round of the outer loop of \<^verbatim>\<open>make_nested_config\<close>, lines 31 to 34, on the dict
  \<open>current\<close>: walk \<^verbatim>\<open>parts[:-1]\<close> with \<^verbatim>\<open>setdefault\<close>, then store at
  \<^verbatim>\<open>parts[-1]\<close>. The dicts are mutated in place in the source; the model returns the
  dict after the round. When \<^verbatim>\<open>setdefault\<close> hands back an \<^verbatim>\<open>Option\<close> that is
  already stored under the part, the next operation on it fails: a further
  \<^verbatim>\<open>setdefault\<close> raises \<^verbatim>\<open>AttributeError\<close>, the final item assignment
  \<^verbatim>\<open>TypeError\<close>.
\<close>

fun insert_path ::
  "NestedConfig \<Rightarrow> string list \<Rightarrow> string \<Rightarrow> Option_data \<Rightarrow> error + NestedConfig" where
  "insert_path current [] final v = Inr (dict_set current final (OptionV v))"
| "insert_path current (part # parts) final v =
     (case map_of current part of
        None \<Rightarrow>
          (case insert_path [] parts final v of
             Inl e \<Rightarrow> Inl e
           | Inr sub \<Rightarrow> Inr (current @ [(part, DictV sub)]))
      | Some (DictV d) \<Rightarrow>
          (case insert_path d parts final v of
             Inl e \<Rightarrow> Inl e
           | Inr sub \<Rightarrow> Inr (dict_set current part (DictV sub)))
      | Some (OptionV _) \<Rightarrow>
          Inl (if parts = [] then TypeError else AttributeError))"

text \<open>The outer loop over \<^verbatim>\<open>config.items()\<close>, with \<open>result\<close> as built so far.\<close>

fun nested_loop ::
  "NestedConfig \<Rightarrow> (string \<times> Option_data) list \<Rightarrow> error + NestedConfig" where
  "nested_loop result [] = Inr result"
| "nested_loop result ((key, v) # rest) =
     (let parts = str_split (CHR ''.'') key in
      case insert_path result (butlast parts) (last parts) v of
        Inl e \<Rightarrow> Inl e
      | Inr result' \<Rightarrow> nested_loop result' rest)"

definition make_nested_config :: "(string \<times> Option_data) list \<Rightarrow> error + NestedConfig" where
  "make_nested_config config = nested_loop [] config"

section \<open>The Type Expression Resolver\<close>

definition literal_of :: "string list \<Rightarrow> string" where
  "literal_of vs = ''Literal['' @ str_join '', '' (map py_repr vs) @ '']''"

text \<open>
  \<^verbatim>\<open>_get_type_hint\<close> (a name cannot start with an underscore here) and
  \<^verbatim>\<open>get_type_hint\<close>. The equations are in the order of the tests of the source: an
  earlier one wins.
\<close>

fun private_get_type_hint :: "ConfigType \<Rightarrow> string"
  and get_type_hint :: "ConfigType \<Rightarrow> string" where
  "private_get_type_hint (ConfigType (List valtype) n vv) =
     ''list['' @ get_type_hint valtype @ '']''"
| "private_get_type_hint (ConfigType (Dict keytype valtype) n vv) =
     ''Mapping['' @ get_type_hint keytype @ '', '' @ get_type_hint valtype @ '']''"
| "private_get_type_hint (ConfigType Bool n vv) = ''bool''"
| "private_get_type_hint (ConfigType c n (Some valid_values)) = literal_of valid_values"
| "private_get_type_hint (ConfigType (MappingType mapping_keys) n None) =
     literal_of mapping_keys"
| "private_get_type_hint (ConfigType String n None) = ''str''"
| "private_get_type_hint (ConfigType FontBase n None) = ''str''"
| "private_get_type_hint (ConfigType QtColor n None) = ''str''"
| "private_get_type_hint (ConfigType QssColor n None) = ''str''"
| "private_get_type_hint (ConfigType Command n None) = ''str''"
| "private_get_type_hint (ConfigType Key n None) = ''str''"
| "private_get_type_hint (ConfigType SessionName n None) = ''str''"
| "private_get_type_hint (ConfigType Url n None) = ''str''"
| "private_get_type_hint (ConfigType File n None) = ''str''"
| "private_get_type_hint (ConfigType UrlPattern n None) = ''str''"
| "private_get_type_hint (ConfigType FormatString n None) = ''str''"
| "private_get_type_hint (ConfigType Directory n None) = ''str''"
| "private_get_type_hint (ConfigType Encoding n None) = ''str''"
| "private_get_type_hint (ConfigType FuzzyUrl n None) = ''str''"
| "private_get_type_hint (ConfigType SearchEngineUrl n None) = ''str''"
| "private_get_type_hint (ConfigType Proxy n None) = ''str''"
| "private_get_type_hint (ConfigType IntT n None) = ''int''"
| "private_get_type_hint (ConfigType Float n None) = ''float''"
| "private_get_type_hint (ConfigType (ListOrValue valtype listtype) n None) =
     ''Union['' @ get_type_hint valtype @ '', '' @ get_type_hint listtype @ '']''"
| "private_get_type_hint (ConfigType Perc n None) = ''Union[float, int, str]''"
| "private_get_type_hint (ConfigType PercOrInt n None) = ''Union[int, str]''"
| "private_get_type_hint (ConfigType Regex n None) = ''Union[str, re.Pattern[str]]''"
| "get_type_hint t =
     (let inner = private_get_type_hint t in
      if none_ok t then ''Optional['' @ inner @ '']'' else inner)"

text \<open>The classes of the tuple of lines 57 to 74, which the resolver renders as a string.\<close>

definition string_like :: "cls list" where
  "string_like =
     [String, FontBase, QtColor, QssColor, Command, Key, SessionName, Url, File, UrlPattern,
      FormatString, Directory, Encoding, FuzzyUrl, SearchEngineUrl, Proxy]"

section \<open>The Record Emitter\<close>

text \<open>
  \<^verbatim>\<open>v.replace(r"\+", r"\\+")\<close>: every backslash followed by a plus sign gets a second
  backslash, from left to right.
\<close>

fun escape_plus :: "string \<Rightarrow> string" where
  "escape_plus (a # b # cs) =
     (if a = backslash \<and> b = CHR ''+'' then backslash # backslash # CHR ''+'' # escape_plus cs
      else a # escape_plus (b # cs))"
| "escape_plus cs = cs"

definition triple_quote :: "string \<Rightarrow> string" where
  "triple_quote v = replicate 3 dquote @ escape_plus v @ replicate 3 dquote"

definition snake_to_camel :: "string \<Rightarrow> string" where
  "snake_to_camel name = concat (map capitalize (str_split (CHR ''_'') name))"

text \<open>
  Lines 171 to 179: the documentation text of an option, re-indented. The enumeration
  keeps the first line and indents the others.
\<close>

definition reindent :: "string \<Rightarrow> string \<Rightarrow> string" where
  "reindent indent desc =
     (let lines = str_split newline desc;
          d = str_join [newline, newline]
                (case lines of
                   [] \<Rightarrow> []
                 | l # ls \<Rightarrow> l # map (\<lambda>line. indent @ ''    '' @ line) ls)
      in if \<not> endswith d [newline] \<and> length lines > 1
         then d @ [newline] @ indent @ ''    ''
         else d)"

text \<open>Lines 164 to 181: what the loop appends for a key that holds an option.\<close>

definition option_lines :: "string \<Rightarrow> string \<Rightarrow> Option_data \<Rightarrow> string list" where
  "option_lines indent key v =
     (let type_hint = get_type_hint (opt_typ v) in
      [if opt_default v = None
       then indent @ ''    '' @ key @ '': Optional['' @ type_hint @ '']''
       else indent @ ''    '' @ key @ '': '' @ type_hint]
      @ (if opt_description v \<noteq> []
         then [indent @ ''    '' @ triple_quote (reindent indent (opt_description v)) @ [newline]]
         else []))"

text \<open>Lines 155 to 160: the two header lines and the documentation of the class.\<close>

definition class_head :: "string \<Rightarrow> string \<Rightarrow> string option \<Rightarrow> string list" where
  "class_head class_name indent desc =
     [indent @ ''@dataclass'', indent @ ''class '' @ class_name @ '':'']
     @ (case desc of
          None \<Rightarrow> []
        | Some d \<Rightarrow> [indent @ ''    '' @ triple_quote d])"

text \<open>
  \<^verbatim>\<open>generate_class\<close>, the closure of \<^verbatim>\<open>generate_config_types\<close>, and the
  body of its loop over \<^verbatim>\<open>config.items()\<close> (lines 162 to 189) as \<open>item_lines\<close>:
  what one key and its value append to \<^verbatim>\<open>class_def\<close>, in the order of the dict.
  A value is an \<^verbatim>\<open>Option\<close> or a dict, so the last branch of the loop has no
  instance.
\<close>

fun generate_class :: "string \<Rightarrow> NestedConfig \<Rightarrow> string \<Rightarrow> string option \<Rightarrow> string list"
  and item_lines :: "string \<Rightarrow> string \<times> nested_value \<Rightarrow> string list" where
  "generate_class class_name config indent desc =
     class_head class_name indent desc @ concat (map (item_lines indent) config)"
| "item_lines indent (key, OptionV opt) = option_lines indent key opt"
| "item_lines indent (key, DictV d) =
     (let nested_class_name = ''_'' @ snake_to_camel key in
      (indent @ ''    '' @ key @ '': '' @ nested_class_name)
      # generate_class nested_class_name d (indent @ ''    '') None)"

text \<open>
  The text at the head of the generated module: the value of
  \<^verbatim>\<open>textwrap.dedent(...).lstrip()\<close> on the literal of lines 115 to 134, whose last,
  blank line is emptied by \<^verbatim>\<open>dedent\<close>.
\<close>

definition module_doc :: string where
  "module_doc = str_join [newline]
     [''This file defines static types for the `c` variable in `config.py`.'',
      [],
      ''This is auto-generated from the `scripts/dev/generate_config_types.py` file.'',
      [],
      ''It is not intended to be used at runtime.'',
      [],
      ''Example usage:'',
      ''```py'',
      ''from typing import TYPE_CHECKING, cast'',
      [],
      ''if TYPE_CHECKING:'',
      ''    from qutebrowser.config.configfiles import ConfigAPI'',
      ''    from qutebrowser.config.configcontainer import ConfigContainer'',
      [],
      ''    # note: these expressions aren't executed at runtime'',
      ''    c = cast(ConfigContainer, ...)'',
      ''    config = cast(ConfigAPI, ...)'',
      ''```'',
      []]"

definition preamble :: "string list" where
  "preamble =
     [triple_quote module_doc,
      [],
      ''# pylint: disable=line-too-long, invalid-name'',
      [],
      ''from __future__ import annotations'',
      ''import re'',
      ''from dataclasses import dataclass'',
      ''from collections.abc import Mapping'',
      ''from typing import Optional, Union, Literal'',
      [],
      []]"

text \<open>
  Lines 193 to 200: the tree of the schema and the class \<^verbatim>\<open>ConfigContainer\<close> made
  from it; a failure of the Key Tree Builder leaves the generator.
\<close>

definition root_class :: "(string \<times> Option_data) list \<Rightarrow> error + string list" where
  "root_class config_data =
     (case make_nested_config config_data of
        Inl e \<Rightarrow> Inl e
      | Inr nested_config \<Rightarrow>
          Inr (generate_class ''ConfigContainer'' nested_config []
                 (Some ''Type for the `c` variable in `config.py`.'')))"

definition generate_config_types :: "(string \<times> Option_data) list \<Rightarrow> error + string" where
  "generate_config_types config_data =
     (case root_class config_data of
        Inl e \<Rightarrow> Inl e
      | Inr class_def \<Rightarrow> Inr (str_join [newline] (preamble @ class_def)))"

section \<open>Schemas used as examples\<close>

definition save_session :: Option_data where
  "save_session =
     \<lparr>opt_typ = ConfigType Bool False None, opt_default = Some (PyBool True),
      opt_description = ''Save session.''\<rparr>"

definition font_family :: Option_data where
  "font_family =
     \<lparr>opt_typ = ConfigType String False None, opt_default = None, opt_description = []\<rparr>"

definition scenario_config :: "(string \<times> Option_data) list" where
  "scenario_config = [(''auto_save.session'', save_session), (''font.family'', font_family)]"

definition net_timeout :: Option_data where
  "net_timeout =
     \<lparr>opt_typ = ConfigType IntT False None, opt_default = Some (PyInt 30),
      opt_description = ''Timeout.''\<rparr>"

definition net_retries :: Option_data where
  "net_retries =
     \<lparr>opt_typ = ConfigType IntT False None, opt_default = Some (PyInt 3),
      opt_description = ''Retries.''\<rparr>"

text \<open>An option with no default whose type allows \<^verbatim>\<open>None\<close>.\<close>

definition search_pattern :: Option_data where
  "search_pattern =
     \<lparr>opt_typ = ConfigType Regex True None, opt_default = None,
      opt_description = ''Pattern.''\<rparr>"


section \<open>Reading the Key Tree\<close>

text \<open>
  Whether the walk along a path of names meets an \<^verbatim>\<open>Option\<close>: some part of the
  path, reached through dicts only, holds an option and not a dict.
\<close>

fun leaf_on_path :: "NestedConfig \<Rightarrow> string list \<Rightarrow> bool" where
  "leaf_on_path t [] = False"
| "leaf_on_path t (p # ps) =
     (case map_of t p of
        None \<Rightarrow> False
      | Some (OptionV _) \<Rightarrow> True
      | Some (DictV d) \<Rightarrow> leaf_on_path d ps)"











section \<open>Reading the emitted text\<close>

text \<open>
  The classes and fields are read back from the lines that \<^verbatim>\<open>generate_class\<close> returns.
  A line has an indentation and a body; the line of a class starts with the word
  \<^verbatim>\<open>class\<close>; the line of a field is any other line that starts neither with a double
  quote (documentation) nor with an at sign (the decorator), and its name ends before
  the colon. The fields of a class are the field lines four columns deeper than its
  \<^verbatim>\<open>class\<close> line, among the lines that follow it and are indented deeper than it.
  \<open>parse_records\<close> lists the field names of every class, in the order of the text.
\<close>

definition lead :: "string \<Rightarrow> nat" where
  "lead s = length (takeWhile (\<lambda>c. c = CHR '' '') s)"

definition body :: "string \<Rightarrow> string" where
  "body s = dropWhile (\<lambda>c. c = CHR '' '') s"









section \<open>The resolver\<close>

lemmas char_defs = dquote_def squote_def backslash_def newline_def

text \<open>
  C3. A descriptor whose \<^verbatim>\<open>none_ok\<close> flag is set resolves to \<^verbatim>\<open>Optional[...]\<close>
  around the whole expression that \<^verbatim>\<open>_get_type_hint\<close> resolves for it, whatever its
  class: for a list and a dict the wrapper stands outside the composite. A nullable list
  of integers is \<^verbatim>\<open>Optional[list[int]]\<close>, not \<^verbatim>\<open>list[Optional[int]]\<close>.
\<close>

theorem nullable_wraps_outermost:
  "(none_ok t \<longrightarrow> get_type_hint t = ''Optional['' @ private_get_type_hint t @ '']'')
   \<and> get_type_hint (ConfigType (List valtype) True vv) =
         ''Optional[list['' @ get_type_hint valtype @ '']]''
   \<and> get_type_hint (ConfigType (Dict keytype valtype) True vv) =
         ''Optional[Mapping['' @ get_type_hint keytype @ '', '' @ get_type_hint valtype @ '']]''
   \<and> get_type_hint (ConfigType (List (ConfigType IntT False None)) True vv) =
         ''Optional[list[int]]''
   \<and> get_type_hint (ConfigType (List (ConfigType IntT False None)) True vv) \<noteq>
         ''list[Optional[int]]''"
  by simp

theorem nullable_wraps_outermost_witness:
  "none_ok (ConfigType (ListOrValue (ConfigType String False None)
              (ConfigType (List (ConfigType String False None)) False None)) True None)
   \<and> get_type_hint (ConfigType (ListOrValue (ConfigType String False None)
              (ConfigType (List (ConfigType String False None)) False None)) True None)
       = ''Optional[Union[str, list[str]]]''"
  using nullable_wraps_outermost [of "ConfigType (ListOrValue (ConfigType String False None)
              (ConfigType (List (ConfigType String False None)) False None)) True None"]
  by simp

text \<open>
  C6. A descriptor of class \<^verbatim>\<open>Perc\<close>, \<^verbatim>\<open>PercOrInt\<close> or \<^verbatim>\<open>Regex\<close> has no
  valid values: a descriptor with fixed values is of the enumerated kind, which the
  resolver renders at lines 48 to 50, and these classes are given none. When it is not
  nullable it resolves to \<^verbatim>\<open>Union[float, int, str]\<close>, \<^verbatim>\<open>Union[int, str]\<close> and
  \<^verbatim>\<open>Union[str, re.Pattern[str]]\<close>.
\<close>

theorem numeric_unions:
  assumes "get_valid_values t = None" and "\<not> none_ok t"
  shows "(cls t = Perc \<longrightarrow> get_type_hint t = ''Union[float, int, str]'')
       \<and> (cls t = PercOrInt \<longrightarrow> get_type_hint t = ''Union[int, str]'')
       \<and> (cls t = Regex \<longrightarrow> get_type_hint t = ''Union[str, re.Pattern[str]]'')"
  using assms by (cases t) auto

theorem numeric_unions_witness:
  "get_type_hint (ConfigType Perc False None) = ''Union[float, int, str]''
   \<and> get_type_hint (ConfigType PercOrInt False None) = ''Union[int, str]''
   \<and> get_type_hint (ConfigType Regex False None) = ''Union[str, re.Pattern[str]]''"
  using numeric_unions [of "ConfigType Perc False None"]
    numeric_unions [of "ConfigType PercOrInt False None"]
    numeric_unions [of "ConfigType Regex False None"]
  by simp

text \<open>
  C7, as amended. A descriptor of one of the sixteen classes of the tuple of lines 57 to
  74 that is not nullable and has no valid values resolves to \<^verbatim>\<open>str\<close>.
\<close>

theorem string_like_str:
  assumes "cls t \<in> set string_like" and "get_valid_values t = None" and "\<not> none_ok t"
  shows "get_type_hint t = ''str''"
  using assms by (cases t) (auto simp: string_like_def)

theorem string_like_str_witness:
  "cls (ConfigType Url False None) \<in> set string_like
   \<and> get_type_hint (ConfigType Url False None) = ''str''
   \<and> get_type_hint (ConfigType Proxy False None) = ''str''"
  using string_like_str [of "ConfigType Url False None"]
    string_like_str [of "ConfigType Proxy False None"]
  by (simp add: string_like_def)

text \<open>
  Against C7 as stated: a plain string descriptor with the valid values \<^verbatim>\<open>always\<close> and
  \<^verbatim>\<open>never\<close> resolves to the literal of its values, not to \<^verbatim>\<open>str\<close>.
\<close>

theorem string_like_counterexample:
  "cls (ConfigType String False (Some [''always'', ''never''])) \<in> set string_like
   \<and> \<not> none_ok (ConfigType String False (Some [''always'', ''never'']))
   \<and> get_type_hint (ConfigType String False (Some [''always'', ''never''])) =
         ''Literal['always', 'never']''
   \<and> get_type_hint (ConfigType String False (Some [''always'', ''never''])) \<noteq> ''str''"
  by (simp add: string_like_def literal_of_def py_repr_def repr_char_def char_defs Let_def)

section \<open>Fields of options\<close>

lemma item_lines_emitted:
  assumes "item \<in> set config"
  shows "set (item_lines indent item) \<subseteq> set (generate_class cn config indent desc)"
  using assms by auto

lemma option_field_line:
  "hd (item_lines indent (key, OptionV v)) =
     indent @ ''    '' @ key @ '': '' @
       (if opt_default v = None then ''Optional['' @ get_type_hint (opt_typ v) @ '']''
        else get_type_hint (opt_typ v))"
  by (simp add: option_lines_def Let_def)

lemma option_field_line_emitted:
  assumes "(key, OptionV v) \<in> set config"
  shows "hd (item_lines indent (key, OptionV v)) \<in> set (generate_class cn config indent desc)"
proof -
  have "item_lines indent (key, OptionV v) \<noteq> []"
    by (simp add: option_lines_def Let_def)
  then have "hd (item_lines indent (key, OptionV v)) \<in> set (item_lines indent (key, OptionV v))"
    by (rule hd_in_set)
  with item_lines_emitted [OF assms] show ?thesis
    by blast
qed

text \<open>
  C5. The first line that the loop appends for an option is the line of its field, and
  it is a line of the class. When the default is \<^verbatim>\<open>None\<close> the type of the field is
  \<^verbatim>\<open>Optional[...]\<close> around what \<^verbatim>\<open>get_type_hint\<close> gives, whatever \<^verbatim>\<open>none_ok\<close>
  says; with a default and \<^verbatim>\<open>none_ok\<close> unset it is the bare expression of
  \<^verbatim>\<open>_get_type_hint\<close>. The flag \<^verbatim>\<open>none_ok\<close> acts on its own, inside: with a default
  and the flag set the type is the expression wrapped once.
\<close>

theorem default_absent_field_optional:
  assumes "(key, OptionV v) \<in> set config"
  shows "hd (item_lines indent (key, OptionV v)) \<in> set (generate_class cn config indent desc)
    \<and> (opt_default v = None \<longrightarrow>
           hd (item_lines indent (key, OptionV v)) =
             indent @ ''    '' @ key @ '': Optional['' @ get_type_hint (opt_typ v) @ '']'')
    \<and> (opt_default v \<noteq> None \<and> \<not> none_ok (opt_typ v) \<longrightarrow>
           hd (item_lines indent (key, OptionV v)) =
             indent @ ''    '' @ key @ '': '' @ private_get_type_hint (opt_typ v))
    \<and> (opt_default v \<noteq> None \<and> none_ok (opt_typ v) \<longrightarrow>
           hd (item_lines indent (key, OptionV v)) =
             indent @ ''    '' @ key @ '': Optional['' @ private_get_type_hint (opt_typ v) @ '']'')"
proof (intro conjI impI)
  show "hd (item_lines indent (key, OptionV v)) \<in> set (generate_class cn config indent desc)"
    by (rule option_field_line_emitted [OF assms])
next
  assume "opt_default v = None"
  then show "hd (item_lines indent (key, OptionV v)) =
      indent @ ''    '' @ key @ '': Optional['' @ get_type_hint (opt_typ v) @ '']''"
    by (subst option_field_line) simp
next
  assume "opt_default v \<noteq> None \<and> \<not> none_ok (opt_typ v)"
  then show "hd (item_lines indent (key, OptionV v)) =
      indent @ ''    '' @ key @ '': '' @ private_get_type_hint (opt_typ v)"
    by (subst option_field_line) simp
next
  assume "opt_default v \<noteq> None \<and> none_ok (opt_typ v)"
  then show "hd (item_lines indent (key, OptionV v)) =
      indent @ ''    '' @ key @ '': Optional['' @ private_get_type_hint (opt_typ v) @ '']''"
    by (subst option_field_line) simp
qed

theorem default_absent_field_optional_witness:
  "hd (item_lines ''    '' (''family'', OptionV font_family)) = ''        family: Optional[str]''
   \<and> ''        family: Optional[str]'' \<in>
       set (generate_class ''_Font'' [(''family'', OptionV font_family)] ''    '' None)
   \<and> hd (item_lines ''    '' (''session'', OptionV save_session)) = ''        session: bool''
   \<and> ''        session: bool'' \<in>
       set (generate_class ''_AutoSave'' [(''session'', OptionV save_session)] ''    '' None)"
  using default_absent_field_optional
      [of "''family''" font_family "[(''family'', OptionV font_family)]" "''    ''" "''_Font''" None]
    default_absent_field_optional
      [of "''session''" save_session "[(''session'', OptionV save_session)]" "''    ''"
        "''_AutoSave''" None]
  by (simp add: font_family_def save_session_def option_lines_def class_head_def
      reindent_def endswith_def char_defs triple_quote_def)

text \<open>
  C10. For an option whose default is \<^verbatim>\<open>None\<close> and whose descriptor has \<^verbatim>\<open>none_ok\<close>
  set, the field of the class is typed \<^verbatim>\<open>Optional[Optional[...]]\<close> around the
  expression of \<^verbatim>\<open>_get_type_hint\<close>: the two wrappers are both written.
\<close>

theorem double_optional:
  assumes "(key, OptionV v) \<in> set config"
    and "opt_default v = None" and "none_ok (opt_typ v)"
  shows "hd (item_lines indent (key, OptionV v)) =
           indent @ ''    '' @ key @ '': Optional[Optional[''
             @ private_get_type_hint (opt_typ v) @ '']]''
         \<and> hd (item_lines indent (key, OptionV v)) \<in> set (generate_class cn config indent desc)"
proof
  show "hd (item_lines indent (key, OptionV v)) =
      indent @ ''    '' @ key @ '': Optional[Optional[''
        @ private_get_type_hint (opt_typ v) @ '']]''"
    using assms(2,3) by (subst option_field_line) simp
  show "hd (item_lines indent (key, OptionV v)) \<in> set (generate_class cn config indent desc)"
    by (rule option_field_line_emitted [OF assms(1)])
qed

theorem double_optional_witness:
  "opt_default search_pattern = None \<and> none_ok (opt_typ search_pattern)
   \<and> hd (item_lines [] (''pattern'', OptionV search_pattern)) =
       ''    pattern: Optional[Optional[Union[str, re.Pattern[str]]]]''
   \<and> ''    pattern: Optional[Optional[Union[str, re.Pattern[str]]]]'' \<in>
       set (generate_class ''ConfigContainer'' [(''pattern'', OptionV search_pattern)] [] None)"
  using double_optional
      [of "''pattern''" search_pattern "[(''pattern'', OptionV search_pattern)]" "[]"
        "''ConfigContainer''" None]
  by (simp add: search_pattern_def option_lines_def class_head_def reindent_def
      endswith_def char_defs triple_quote_def)

section \<open>The concrete scenario\<close>

lemma scenario_tree:
  "make_nested_config scenario_config =
     Inr [(''auto_save'', DictV [(''session'', OptionV save_session)]),
          (''font'', DictV [(''family'', OptionV font_family)])]"
  by (simp add: make_nested_config_def scenario_config_def)

text \<open>
  C2, as amended. For the schema of the scenario the class \<^verbatim>\<open>ConfigContainer\<close> has
  exactly the fields \<^verbatim>\<open>auto_save\<close>, typed \<^verbatim>\<open>_AutoSave\<close>, and \<^verbatim>\<open>font\<close>, typed
  \<^verbatim>\<open>_Font\<close>: the name of a nested class is an underscore and the key in camel case.
  The class \<^verbatim>\<open>_AutoSave\<close> has the field \<^verbatim>\<open>session\<close> of type \<^verbatim>\<open>bool\<close>,
  documented \<^verbatim>\<open>Save session.\<close>; the class \<^verbatim>\<open>_Font\<close> has the field \<^verbatim>\<open>family\<close>
  of type \<^verbatim>\<open>Optional[str]\<close>, with no documentation.
\<close>

theorem scenario_records:
  "root_class scenario_config =
     Inr [''@dataclass'',
          ''class ConfigContainer:'',
          ''    '' @ triple_quote ''Type for the `c` variable in `config.py`.'',
          ''    auto_save: _AutoSave'',
          ''    @dataclass'',
          ''    class _AutoSave:'',
          ''        session: bool'',
          ''        '' @ triple_quote ''Save session.'' @ [newline],
          ''    font: _Font'',
          ''    @dataclass'',
          ''    class _Font:'',
          ''        family: Optional[str]'']"
  by (simp add: root_class_def scenario_tree class_head_def option_lines_def
      save_session_def font_family_def snake_to_camel_def upper_char_def lower_char_def
      reindent_def endswith_def char_defs)

text \<open>
  Against C2 as stated: no line of the class declares a field of type \<^verbatim>\<open>AutoSave\<close> or
  \<^verbatim>\<open>Font\<close>, and no class of these names is written.
\<close>

theorem scenario_record_names_counterexample:
  "\<not> (\<exists>ls. root_class scenario_config = Inr ls \<and>
        (''    auto_save: AutoSave'' \<in> set ls \<or> ''    class AutoSave:'' \<in> set ls \<or>
         ''    font: Font'' \<in> set ls \<or> ''    class Font:'' \<in> set ls))"
  by (simp add: root_class_def scenario_tree class_head_def option_lines_def
      save_session_def font_family_def snake_to_camel_def upper_char_def lower_char_def
      reindent_def endswith_def char_defs triple_quote_def)

text \<open>The whole text of the module that the generator returns for the scenario.\<close>

lemma scenario_module:
  "generate_config_types scenario_config = Inr (str_join [newline] (preamble @
     [''@dataclass'',
      ''class ConfigContainer:'',
      ''    '' @ triple_quote ''Type for the `c` variable in `config.py`.'',
      ''    auto_save: _AutoSave'',
      ''    @dataclass'',
      ''    class _AutoSave:'',
      ''        session: bool'',
      ''        '' @ triple_quote ''Save session.'' @ [newline],
      ''    font: _Font'',
      ''    @dataclass'',
      ''    class _Font:'',
      ''        family: Optional[str]'']))"
  by (simp add: generate_config_types_def root_class_def scenario_tree class_head_def
      option_lines_def save_session_def font_family_def snake_to_camel_def upper_char_def
      lower_char_def reindent_def endswith_def char_defs)

section \<open>Keys that are the start of other keys\<close>

lemma map_of_dict_set:
  "map_of (dict_set d k v) k' = (if k' = k then Some v else map_of d k')"
  by (induction d) auto

lemma map_of_append_new:
  "map_of d k = None \<Longrightarrow> map_of (d @ [(k, v)]) k' = (if k' = k then Some v else map_of d k')"
  by (induction d) (auto split: if_splits)

lemma insert_path_blocked:
  "leaf_on_path t ps \<Longrightarrow> \<exists>e. insert_path t (ps @ rs) l v = Inl e"
proof (induction ps arbitrary: t)
  case Nil
  then show ?case by simp
next
  case (Cons p ps)
  show ?case
  proof (cases "map_of t p")
    case None
    with Cons.prems show ?thesis by simp
  next
    case (Some x)
    show ?thesis
    proof (cases x)
      case (OptionV o1)
      with Some show ?thesis by simp
    next
      case (DictV d)
      with Some Cons.prems have "leaf_on_path d ps" by simp
      from Cons.IH [OF this] obtain e where "insert_path d (ps @ rs) l v = Inl e" by blast
      with Some DictV show ?thesis by simp
    qed
  qed
qed

lemma insert_path_leaf:
  "insert_path t ds l v = Inr t' \<Longrightarrow> leaf_on_path t' (ds @ [l])"
proof (induction ds arbitrary: t t')
  case Nil
  then show ?case by (auto simp: map_of_dict_set)
next
  case (Cons d ds)
  show ?case
  proof (cases "map_of t d")
    case None
    with Cons.prems obtain sub where s: "insert_path [] ds l v = Inr sub"
      and t': "t' = t @ [(d, DictV sub)]"
      by (auto split: sum.splits)
    from Cons.IH [OF s] show ?thesis
      by (simp add: t' map_of_append_new [OF None] del: map_of_append)
  next
    case (Some x)
    show ?thesis
    proof (cases x)
      case (OptionV o1)
      with Some Cons.prems show ?thesis by simp
    next
      case (DictV dd)
      with Some Cons.prems obtain sub where s: "insert_path dd ds l v = Inr sub"
        and t': "t' = dict_set t d (DictV sub)"
        by (auto split: sum.splits)
      from Cons.IH [OF s] show ?thesis
        by (simp add: t' map_of_dict_set)
    qed
  qed
qed

lemma insert_path_keeps_leaf:
  "leaf_on_path t ps \<Longrightarrow> insert_path t ds l v = Inr t' \<Longrightarrow> leaf_on_path t' ps"
proof (induction ds arbitrary: t t' ps)
  case Nil
  then show ?case
    by (cases ps) (auto simp: map_of_dict_set split: option.splits nested_value.splits if_splits)
next
  case (Cons d ds)
  from Cons.prems(1) obtain p ps' where ps: "ps = p # ps'"
    by (cases ps) auto
  show ?case
  proof (cases "map_of t d")
    case None
    with Cons.prems(2) obtain sub where t': "t' = t @ [(d, DictV sub)]"
      by (auto split: sum.splits)
    from Cons.prems(1) None have "p \<noteq> d"
      by (auto simp: ps)
    with Cons.prems(1) show ?thesis
      by (simp add: ps t' map_of_append_new [OF None] del: map_of_append)
  next
    case (Some x)
    show ?thesis
    proof (cases x)
      case (OptionV o1)
      with Some Cons.prems(2) show ?thesis by simp
    next
      case (DictV dd)
      with Some Cons.prems(2) obtain sub where s: "insert_path dd ds l v = Inr sub"
        and t': "t' = dict_set t d (DictV sub)"
        by (auto split: sum.splits)
      show ?thesis
      proof (cases "p = d")
        case True
        with Cons.prems(1) Some DictV have "leaf_on_path dd ps'"
          by (simp add: ps)
        from Cons.IH [OF this s] show ?thesis
          by (simp add: ps t' True map_of_dict_set)
      next
        case False
        with Cons.prems(1) show ?thesis
          by (simp add: ps t' map_of_dict_set)
      qed
    qed
  qed
qed

lemma str_split_nonempty: "str_split sep s \<noteq> []"
  by (induction s) (auto split: list.splits)

lemma nested_loop_blocked:
  assumes "leaf_on_path t ps" and "(k2, v2) \<in> set rest"
    and "str_split (CHR ''.'') k2 = ps @ qs" and "qs \<noteq> []"
  shows "\<exists>e. nested_loop t rest = Inl e"
  using assms(1,2)
proof (induction rest arbitrary: t)
  case Nil
  then show ?case by simp
next
  case (Cons kv rest)
  obtain k v where kv: "kv = (k, v)" by (cases kv)
  show ?case
  proof (cases "insert_path t (butlast (str_split (CHR ''.'') k)) (last (str_split (CHR ''.'') k)) v")
    case (Inl e)
    then show ?thesis by (simp add: kv)
  next
    case (Inr t')
    show ?thesis
    proof (cases "(k2, v2) = (k, v)")
      case True
      with assms(3,4) have "butlast (str_split (CHR ''.'') k) = ps @ butlast qs"
        by (simp add: butlast_append)
      with insert_path_blocked [OF Cons.prems(1), of "butlast qs" "last (str_split (CHR ''.'') k)" v] Inr
      show ?thesis by simp
    next
      case False
      with Cons.prems(2) have "(k2, v2) \<in> set rest" by (auto simp: kv)
      from Cons.IH [OF insert_path_keeps_leaf [OF Cons.prems(1) Inr] this] Inr
      show ?thesis by (simp add: kv)
    qed
  qed
qed

lemma nested_loop_leaf_then_longer:
  assumes "str_split (CHR ''.'') k2 = str_split (CHR ''.'') k1 @ qs" and "qs \<noteq> []"
  shows "\<exists>e. nested_loop t (pre @ (k1, v1) # mid @ (k2, v2) # post) = Inl e"
proof (induction pre arbitrary: t)
  case Nil
  let ?ps = "str_split (CHR ''.'') k1"
  show ?case
  proof (cases "insert_path t (butlast ?ps) (last ?ps) v1")
    case (Inl e)
    then show ?thesis by simp
  next
    case (Inr t')
    from insert_path_leaf [OF Inr] have "leaf_on_path t' ?ps"
      by (simp add: str_split_nonempty)
    from nested_loop_blocked [OF this _ assms, of v2 "mid @ (k2, v2) # post"] Inr
    show ?thesis by simp
  qed
next
  case (Cons kv pre)
  obtain k v where kv: "kv = (k, v)" by (cases kv)
  show ?case
    using Cons.IH by (auto simp: kv Let_def split: sum.splits)
qed

lemma insert_path_empty:
  "\<exists>t. insert_path [] ds l v = Inr t"
  by (induction ds) auto

lemma insert_path_overwrites:
  "\<exists>t2. insert_path [] (ds @ l # rs) f v2 = Inr t2
     \<and> insert_path t2 ds l v1 = insert_path [] ds l v1"
proof (induction ds)
  case Nil
  obtain sub where "insert_path [] rs f v2 = Inr sub"
    using insert_path_empty by blast
  then show ?case by simp
next
  case (Cons d ds)
  then obtain t2 where t2: "insert_path [] (ds @ l # rs) f v2 = Inr t2"
    and same: "insert_path t2 ds l v1 = insert_path [] ds l v1"
    by blast
  obtain s where s: "insert_path [] ds l v1 = Inr s"
    using insert_path_empty by blast
  show ?case
    by (simp add: t2 same s)
qed

text \<open>
  C1, as amended. The builder has no check of its own for a key that is both an option
  and a namespace. When the segments of a key \<open>k2\<close> are those of a key \<open>k1\<close> and
  more, and \<open>k1\<close> stands before \<open>k2\<close> in the mapping, the builder fails on the
  option stored for \<open>k1\<close>, with the \<^verbatim>\<open>TypeError\<close> or \<^verbatim>\<open>AttributeError\<close> that
  Python raises there, and so does the generator. When the mapping is \<open>k2\<close> followed
  by \<open>k1\<close>, nothing fails: the option of \<open>k1\<close> is stored in place of the namespace,
  and the tree is the one of \<open>k1\<close> alone.
\<close>

theorem leaf_then_namespace_fails:
  assumes "str_split (CHR ''.'') k2 = str_split (CHR ''.'') k1 @ qs" and "qs \<noteq> []"
  shows "(config = pre @ (k1, v1) # mid @ (k2, v2) # post \<longrightarrow>
           (\<exists>e. make_nested_config config = Inl e) \<and> (\<exists>e. generate_config_types config = Inl e))
       \<and> make_nested_config [(k2, v2), (k1, v1)] = make_nested_config [(k1, v1)]
       \<and> (\<exists>t. make_nested_config [(k1, v1)] = Inr t)"
proof (intro conjI impI)
  assume c: "config = pre @ (k1, v1) # mid @ (k2, v2) # post"
  from nested_loop_leaf_then_longer [OF assms]
  obtain e where e: "make_nested_config config = Inl e"
    unfolding make_nested_config_def c by blast
  then show "\<exists>e. make_nested_config config = Inl e"
    by blast
  from e show "\<exists>e. generate_config_types config = Inl e"
    by (simp add: generate_config_types_def root_class_def)
next
  let ?ps = "str_split (CHR ''.'') k1"
  have ps: "butlast ?ps @ [last ?ps] = ?ps"
    by (simp add: str_split_nonempty)
  have "butlast (str_split (CHR ''.'') k2) = butlast ?ps @ last ?ps # butlast qs"
    using assms ps by (simp add: butlast_append)
  moreover have "last (str_split (CHR ''.'') k2) = last qs"
    using assms by simp
  moreover obtain t2 where "insert_path [] (butlast ?ps @ last ?ps # butlast qs) (last qs) v2 = Inr t2"
    and "insert_path t2 (butlast ?ps) (last ?ps) v1 = insert_path [] (butlast ?ps) (last ?ps) v1"
    using insert_path_overwrites by blast
  ultimately show "make_nested_config [(k2, v2), (k1, v1)] = make_nested_config [(k1, v1)]"
    by (simp add: make_nested_config_def)
next
  obtain t where "insert_path [] (butlast (str_split (CHR ''.'') k1))
      (last (str_split (CHR ''.'') k1)) v1 = Inr t"
    using insert_path_empty by blast
  then show "\<exists>t. make_nested_config [(k1, v1)] = Inr t"
    by (simp add: make_nested_config_def)
qed

theorem leaf_then_namespace_fails_witness:
  "make_nested_config [(''net.timeout'', net_timeout), (''net.timeout.retries'', net_retries)]
     = Inl TypeError
   \<and> make_nested_config [(''net'', net_timeout), (''net.timeout.retries'', net_retries)]
     = Inl AttributeError
   \<and> make_nested_config [(''net.timeout.retries'', net_retries), (''net.timeout'', net_timeout)]
     = make_nested_config [(''net.timeout'', net_timeout)]"
  using leaf_then_namespace_fails
      [of "''net.timeout.retries''" "''net.timeout''" "[''retries'']"
        "[(''net.timeout'', net_timeout), (''net.timeout.retries'', net_retries)]"
        "[]" net_timeout "[]" net_retries "[]"]
  by (simp add: make_nested_config_def)

text \<open>
  Against C1 as stated: with the longer key first, no failure is raised, and the
  namespace \<^verbatim>\<open>net.timeout\<close> with its option \<^verbatim>\<open>retries\<close> is replaced by the option.
\<close>

theorem namespace_overwritten_counterexample:
  "make_nested_config [(''net.timeout.retries'', net_retries), (''net.timeout'', net_timeout)]
     = Inr [(''net'', DictV [(''timeout'', OptionV net_timeout)])]"
  by (simp add: make_nested_config_def)


section \<open>The order of the keys of the tree\<close>
















section \<open>The classes and fields of the emitted text\<close>




lemma lead_nonspace: "c \<noteq> CHR '' '' \<Longrightarrow> lead (c # r) = 0"
  by (simp add: lead_def)

lemma body_nonspace: "c \<noteq> CHR '' '' \<Longrightarrow> body (c # r) = c # r"
  by (simp add: body_def)
































end
